theory Spec2Isabelle
  imports Main "HOL-Library.Word"
begin

section \<open>JavaScript strings\<close>

text \<open>
  A JavaScript string is a sequence of UTF-16 code units, and \<^verbatim>\<open>.length\<close> counts
  code units. The component only handles strings through \<^verbatim>\<open>replace(/\D/g, '')\<close>,
  \<^verbatim>\<open>slice\<close>, \<^verbatim>\<open>trim\<close>, \<^verbatim>\<open>length\<close>, template literals and truthiness.
\<close>

type_synonym jschar = "16 word"
type_synonym jsstring = "jschar list"

text \<open>An ASCII literal of the source, as code units.\<close>

definition lit :: "string \<Rightarrow> jsstring" where
  "lit cs = map of_char cs"

text \<open>
  The regular expression class \<^verbatim>\<open>\D\<close> (without the unicode flag) matches every code
  unit that is not one of \<^verbatim>\<open>0\<close> .. \<^verbatim>\<open>9\<close>.
\<close>

definition is_digit :: "jschar \<Rightarrow> bool" where
  "is_digit c = (0x30 \<le> c \<and> c \<le> 0x39)"

definition matches_D :: "jschar \<Rightarrow> bool" where
  "matches_D c = (\<not> is_digit c)"

text \<open>\<^verbatim>\<open>value.replace(/\D/g, '')\<close>: every match is replaced by the empty string.\<close>

definition replace_D :: "jsstring \<Rightarrow> jsstring" where
  "replace_D v = filter (\<lambda>c. \<not> matches_D c) v"

text \<open>
  \<^verbatim>\<open>String.prototype.slice(start, end)\<close>: a negative index counts from the end,
  both indices are clamped to the string, and an absent \<^verbatim>\<open>end\<close> is the length.
\<close>

definition rel_index :: "int \<Rightarrow> int \<Rightarrow> int" where
  "rel_index len i = (if i < 0 then max (len + i) 0 else min i len)"

definition js_slice :: "jsstring \<Rightarrow> int \<Rightarrow> int option \<Rightarrow> jsstring" where
  "js_slice s start end =
     (let len = int (length s);
          from = rel_index len start;
          to = (case end of None \<Rightarrow> len | Some e \<Rightarrow> rel_index len e)
      in if to \<le> from then [] else take (nat (to - from)) (drop (nat from) s))"

text \<open>
  \<^verbatim>\<open>String.prototype.trim\<close> removes leading and trailing WhiteSpace and
  LineTerminator code points: TAB, LF, VT, FF, CR, SP, NBSP, U+1680, U+2000 .. U+200A,
  U+2028, U+2029, U+202F, U+205F, U+3000 and U+FEFF.
\<close>

definition is_space :: "jschar \<Rightarrow> bool" where
  "is_space c =
     (c = 0x09 \<or> c = 0x0A \<or> c = 0x0B \<or> c = 0x0C \<or> c = 0x0D \<or> c = 0x20 \<or> c = 0xA0
      \<or> c = 0x1680 \<or> (0x2000 \<le> c \<and> c \<le> 0x200A) \<or> c = 0x2028 \<or> c = 0x2029
      \<or> c = 0x202F \<or> c = 0x205F \<or> c = 0x3000 \<or> c = 0xFEFF)"

definition js_trim :: "jsstring \<Rightarrow> jsstring" where
  "js_trim s = rev (dropWhile is_space (rev (dropWhile is_space s)))"

text \<open>\<^verbatim>\<open>!s\<close> on a string: the empty string is the only falsy one.\<close>

definition js_not :: "jsstring \<Rightarrow> bool" where
  "js_not s = (s = [])"


section \<open>The phone formatter\<close>

text \<open>\<^verbatim>\<open>formatPhoneNumber\<close>, lines 32 to 46 of OnboardingForm.tsx.\<close>

definition formatPhoneNumber :: "jsstring \<Rightarrow> jsstring" where
  "formatPhoneNumber v =
     (let numbers = replace_D v in
      if length numbers \<le> 2 then
        lit ''+55 '' @ numbers
      else if length numbers \<le> 4 then
        lit ''+55 ('' @ js_slice numbers 2 None @ lit '')''
      else if length numbers \<le> 9 then
        lit ''+55 ('' @ js_slice numbers 2 (Some 4) @ lit '') '' @ js_slice numbers 4 None
      else
        lit ''+55 ('' @ js_slice numbers 2 (Some 4) @ lit '') '' @ js_slice numbers 4 (Some 9)
          @ lit ''-'' @ js_slice numbers 9 (Some 13))"




section \<open>The component state\<close>

text \<open>The interface \<^verbatim>\<open>FormData\<close> and the three \<^verbatim>\<open>useState\<close> cells.\<close>

record FormData =
  fullName :: jsstring
  phoneNumber :: jsstring
  password :: jsstring

datatype field = FullName | PhoneNumber | Password

text \<open>
  A notification handed to \<^verbatim>\<open>toast\<close>; \<open>variant\<close> is \<open>None\<close> where the source
  passes none.
\<close>

record toast_msg =
  title :: jsstring
  description :: jsstring
  variant :: "jsstring option"

text \<open>
  The state of the component: the three cells, and the notifications emitted so far
  (the external notification service is a log that \<^verbatim>\<open>toast\<close> appends to).
\<close>

record ui_state =
  formData :: FormData
  showPassword :: bool
  isLoading :: bool
  toasts :: "toast_msg list"

definition empty_form :: FormData where
  "empty_form = \<lparr>fullName = [], phoneNumber = [], password = []\<rparr>"

definition initial_state :: ui_state where
  "initial_state =
     \<lparr>formData = empty_form, showPassword = False, isLoading = False, toasts = []\<rparr>"

definition setFormData :: "FormData \<Rightarrow> ui_state \<Rightarrow> ui_state" where
  "setFormData fd s = s\<lparr>formData := fd\<rparr>"

definition setShowPassword :: "bool \<Rightarrow> ui_state \<Rightarrow> ui_state" where
  "setShowPassword b s = s\<lparr>showPassword := b\<rparr>"

definition setIsLoading :: "bool \<Rightarrow> ui_state \<Rightarrow> ui_state" where
  "setIsLoading b s = s\<lparr>isLoading := b\<rparr>"

definition toast :: "toast_msg \<Rightarrow> ui_state \<Rightarrow> ui_state" where
  "toast t s = s\<lparr>toasts := toasts s @ [t]\<rparr>"

text \<open>\<^verbatim>\<open>handleInputChange\<close>, lines 25 to 30.\<close>

fun handleInputChange :: "field \<Rightarrow> jsstring \<Rightarrow> ui_state \<Rightarrow> ui_state" where
  "handleInputChange FullName v s = setFormData ((formData s)\<lparr>fullName := v\<rparr>) s"
| "handleInputChange PhoneNumber v s = setFormData ((formData s)\<lparr>phoneNumber := v\<rparr>) s"
| "handleInputChange Password v s = setFormData ((formData s)\<lparr>password := v\<rparr>) s"

text \<open>\<^verbatim>\<open>handlePhoneChange\<close>, lines 48 to 51.\<close>

definition handlePhoneChange :: "jsstring \<Rightarrow> ui_state \<Rightarrow> ui_state" where
  "handlePhoneChange v s =
     (let formatted = formatPhoneNumber v in handleInputChange PhoneNumber formatted s)"


section \<open>Submission\<close>

text \<open>
  The five notifications of \<^verbatim>\<open>handleSubmit\<close>, named after the error taxonomy of the
  specification. The accented letters of the source are single code units.
\<close>

definition toast_EmptyName :: toast_msg where
  "toast_EmptyName =
     \<lparr>title = lit ''Erro'',
      description = lit ''Por favor, preencha seu nome completo.'',
      variant = Some (lit ''destructive'')\<rparr>"

definition toast_InvalidPhone :: toast_msg where
  "toast_InvalidPhone =
     \<lparr>title = lit ''Erro'',
      description = lit ''Por favor, preencha um n'' @ [0xFA] @ lit ''mero de telefone v''
        @ [0xE1] @ lit ''lido.'',
      variant = Some (lit ''destructive'')\<rparr>"

definition toast_WeakPassword :: toast_msg where
  "toast_WeakPassword =
     \<lparr>title = lit ''Erro'',
      description = lit ''A senha deve ter pelo menos 6 caracteres.'',
      variant = Some (lit ''destructive'')\<rparr>"

definition toast_Success :: toast_msg where
  "toast_Success =
     \<lparr>title = lit ''Sucesso!'',
      description = lit ''Cadastro realizado com sucesso. Voc'' @ [0xEA] @ lit '' receber''
        @ [0xE1] @ lit '' as instru'' @ [0xE7, 0xF5] @ lit ''es de acesso em breve.'',
      variant = None\<rparr>"

definition toast_SubmissionFailure :: toast_msg where
  "toast_SubmissionFailure =
     \<lparr>title = lit ''Erro'',
      description = lit ''Ocorreu um erro ao processar seu cadastro. Tente novamente.'',
      variant = Some (lit ''destructive'')\<rparr>"

text \<open>
  How the awaited promise of the \<^verbatim>\<open>try\<close> block settles. The promise of the source
  (line 91) resolves after its timer and never rejects; the \<^verbatim>\<open>catch\<close> block is there
  for the webhook call that is to replace it.
\<close>

datatype settled = Fulfilled | Rejected

definition simulated_submission :: settled where
  "simulated_submission = Fulfilled"

text \<open>
  \<^verbatim>\<open>handleSubmit\<close> up to its \<^verbatim>\<open>await\<close>, lines 54 to 91: \<open>Inl\<close> is the state at an
  early \<^verbatim>\<open>return\<close>, \<open>Inr\<close> the state in which the handler is suspended.
  \<^verbatim>\<open>e.preventDefault()\<close> does not touch the state. The handler reads \<^verbatim>\<open>formData\<close>
  as it is when the handler is called.
\<close>

definition handleSubmit_sync :: "ui_state \<Rightarrow> ui_state + ui_state" where
  "handleSubmit_sync s0 =
     (let s = setIsLoading True s0 in
      if js_not (js_trim (fullName (formData s))) then
        Inl (setIsLoading False (toast toast_EmptyName s))
      else if js_not (js_trim (phoneNumber (formData s)))
              \<or> length (phoneNumber (formData s)) < 19 then
        Inl (setIsLoading False (toast toast_InvalidPhone s))
      else if js_not (js_trim (password (formData s)))
              \<or> length (password (formData s)) < 6 then
        Inl (setIsLoading False (toast toast_WeakPassword s))
      else Inr s)"

text \<open>
  \<^verbatim>\<open>handleSubmit\<close> from the point where the promise has settled, lines 93 to 112:
  the rest of the \<^verbatim>\<open>try\<close> block or the \<^verbatim>\<open>catch\<close> block, then \<^verbatim>\<open>finally\<close>.
\<close>

definition handleSubmit_resume :: "settled \<Rightarrow> ui_state \<Rightarrow> ui_state" where
  "handleSubmit_resume r s =
     setIsLoading False
       (case r of
          Fulfilled \<Rightarrow>
            setFormData \<lparr>fullName = [], phoneNumber = [], password = []\<rparr> (toast toast_Success s)
        | Rejected \<Rightarrow> toast toast_SubmissionFailure s)"

text \<open>The whole handler, for a given settlement of the awaited promise.\<close>

definition handleSubmit_with :: "settled \<Rightarrow> ui_state \<Rightarrow> ui_state" where
  "handleSubmit_with r s =
     (case handleSubmit_sync s of
        Inl s' \<Rightarrow> s'
      | Inr s' \<Rightarrow> handleSubmit_resume r s')"

definition handleSubmit :: "ui_state \<Rightarrow> ui_state" where
  "handleSubmit s = handleSubmit_with simulated_submission s"

text \<open>
  The handler rejects a state with notification \<open>t\<close>: it returns before the \<^verbatim>\<open>await\<close>,
  having emitted \<open>t\<close> and nothing else, with the fields as they were and
  \<open>isLoading\<close> false.
\<close>

definition rejects_with :: "toast_msg \<Rightarrow> ui_state \<Rightarrow> bool" where
  "rejects_with t s =
     (handleSubmit_sync s = Inl (s\<lparr>isLoading := False, toasts := toasts s @ [t]\<rparr>))"

text \<open>
  The states the component can reach: the initial one, and from a reachable state the
  change handlers as the markup wires them (lines 151, 170, 189), the visibility toggle
  (line 196), the handler up to its \<^verbatim>\<open>await\<close>, and its resumption, which may come
  after any number of edits.
\<close>

inductive reachable :: "ui_state \<Rightarrow> bool" where
  r_init: "reachable initial_state"
| r_name: "reachable s \<Longrightarrow> reachable (handleInputChange FullName v s)"
| r_phone: "reachable s \<Longrightarrow> reachable (handlePhoneChange v s)"
| r_password: "reachable s \<Longrightarrow> reachable (handleInputChange Password v s)"
| r_toggle: "reachable s \<Longrightarrow> reachable (setShowPassword (\<not> showPassword s) s)"
| r_reject: "reachable s \<Longrightarrow> handleSubmit_sync s = Inl s' \<Longrightarrow> reachable s'"
| r_await: "reachable s \<Longrightarrow> handleSubmit_sync s = Inr s' \<Longrightarrow> reachable s'"
| r_resume: "reachable s \<Longrightarrow> reachable (handleSubmit_resume r s)"


section \<open>Strings: auxiliary facts\<close>

lemma replace_D_filter: "replace_D v = filter is_digit v"
  by (simp add: replace_D_def matches_D_def)

lemma js_slice_from: "js_slice s (int i) None = drop i s"
  by (simp add: js_slice_def rel_index_def Let_def min_def)

lemma js_slice_from_to:
  "i \<le> j \<Longrightarrow> js_slice s (int i) (Some (int j)) = take (j - i) (drop i s)"
  by (auto simp: js_slice_def rel_index_def Let_def min_def nat_diff_distrib')

text \<open>The five slices of the formatter, on natural-number indices.\<close>

lemma slice_2: "js_slice s 2 None = drop 2 s"
  using js_slice_from [of s 2] by simp

lemma slice_4: "js_slice s 4 None = drop 4 s"
  using js_slice_from [of s 4] by simp

lemma slice_2_4: "js_slice s 2 (Some 4) = take 2 (drop 2 s)"
  using js_slice_from_to [of 2 4 s] by simp

lemma slice_4_9: "js_slice s 4 (Some 9) = take 5 (drop 4 s)"
  using js_slice_from_to [of 4 9 s] by simp

lemma slice_9_13: "js_slice s 9 (Some 13) = take 4 (drop 9 s)"
  using js_slice_from_to [of 9 13 s] by simp

lemmas slices = slice_2 slice_4 slice_2_4 slice_4_9 slice_9_13

section \<open>The formatter as a function of the digits\<close>

lemma format_digits:
  "formatPhoneNumber v =
     (if length (filter is_digit v) \<le> 2 then lit ''+55 '' @ filter is_digit v
      else if length (filter is_digit v) \<le> 4 then
        lit ''+55 ('' @ drop 2 (filter is_digit v) @ lit '')''
      else if length (filter is_digit v) \<le> 9 then
        lit ''+55 ('' @ take 2 (drop 2 (filter is_digit v)) @ lit '') ''
          @ drop 4 (filter is_digit v)
      else
        lit ''+55 ('' @ take 2 (drop 2 (filter is_digit v)) @ lit '') ''
          @ take 5 (drop 4 (filter is_digit v)) @ lit ''-''
          @ take 4 (drop 9 (filter is_digit v)))"
  by (simp add: formatPhoneNumber_def replace_D_filter slices Let_def)



lemma length_format:
  "length (formatPhoneNumber v) =
     (let n = length (filter is_digit v) in
      if n \<le> 2 then n + 4 else if n \<le> 4 then n + 4 else if n \<le> 9 then n + 5
      else min n 13 + 6)"
  by (auto simp: format_digits Let_def lit_def)

lemma format_length_le: "length (formatPhoneNumber v) \<le> 19"
  by (simp add: length_format Let_def)

lemma format_length_19: "length (formatPhoneNumber v) = 19 \<longleftrightarrow> 13 \<le> length (replace_D v)"
  by (auto simp add: length_format replace_D_filter Let_def)

text \<open>The digits of an output: those of the country code, then those of the input.\<close>

lemma filter_digit_lits:
  "filter is_digit (lit ''+55 '') = lit ''55''"
  "filter is_digit (lit ''+55 ('') = lit ''55''"
  "filter is_digit (lit '')'') = []"
  "filter is_digit (lit '') '') = []"
  "filter is_digit (lit ''-'') = []"
  by (simp_all add: lit_def is_digit_def)



lemma digits_format_lt3:
  assumes "length (filter is_digit v) < 3"
  shows "filter is_digit (formatPhoneNumber v) = lit ''55'' @ filter is_digit v"
  using assms by (simp add: format_digits filter_digit_lits)


text \<open>
  With fewer than three digits the second pass differs from the first: it reads the
  country code of the first output as the first two digits.
\<close>

lemma format_not_idem:
  assumes "length (replace_D v) < 3"
  shows "formatPhoneNumber (formatPhoneNumber v) \<noteq> formatPhoneNumber v"
proof
  assume eq: "formatPhoneNumber (formatPhoneNumber v) = formatPhoneNumber v"
  let ?d = "filter is_digit v"
  define w where "w = formatPhoneNumber v"
  from assms have n: "length ?d \<le> 2" by (simp add: replace_D_filter)
  then have wv: "w = lit ''+55 '' @ ?d"
    by (simp add: w_def format_digits [of v])
  have d1: "filter is_digit w = lit ''55'' @ ?d"
    by (simp add: wv filter_digit_lits)
  have "formatPhoneNumber w \<noteq> w"
  proof (cases "?d = []")
    case True
    then show ?thesis
      by (simp add: format_digits [of w] d1) (simp add: wv lit_def)
  next
    case False
    with n have "\<not> length (filter is_digit w) \<le> 2" "length (filter is_digit w) \<le> 4"
      by (cases ?d; simp add: d1 lit_def)+
    then have "formatPhoneNumber w = lit ''+55 ('' @ drop 2 (filter is_digit w) @ lit '')''"
      by (simp add: format_digits [of w])
    also have "drop 2 (filter is_digit w) = ?d"
      by (simp add: d1 lit_def)
    finally show ?thesis
      by (simp add: wv lit_def)
  qed
  with eq show False by (simp add: w_def)
qed


section \<open>Validation: auxiliary facts\<close>

text \<open>A string trims to the empty string exactly when it is all white space.\<close>

lemma js_trim_Nil: "js_trim s = [] \<longleftrightarrow> (\<forall>c\<in>set s. is_space c)"
proof
  assume "js_trim s = []"
  then have "\<forall>c\<in>set (dropWhile is_space s). is_space c"
    by (simp add: js_trim_def dropWhile_eq_Nil_conv)
  then have "dropWhile is_space s = []"
    using hd_dropWhile [of is_space s] by (cases "dropWhile is_space s") auto
  then show "\<forall>c\<in>set s. is_space c"
    by (simp add: dropWhile_eq_Nil_conv)
next
  assume "\<forall>c\<in>set s. is_space c"
  then have "dropWhile is_space s = []"
    by (simp add: dropWhile_eq_Nil_conv)
  then have "js_trim s = rev (dropWhile is_space (rev []))"
    by (simp only: js_trim_def)
  then show "js_trim s = []"
    by simp
qed

lemma js_trim_format: "js_trim (formatPhoneNumber v) \<noteq> []"
proof -
  have "\<not> is_space 0x2B" by (simp add: is_space_def)
  moreover have "0x2B \<in> set (formatPhoneNumber v)"
    by (simp add: format_digits lit_def)
  ultimately show ?thesis by (auto simp: js_trim_Nil)
qed

lemma toast_distinct:
  "toast_EmptyName \<noteq> toast_InvalidPhone" "toast_EmptyName \<noteq> toast_WeakPassword"
  "toast_InvalidPhone \<noteq> toast_WeakPassword"
  by (simp_all add: toast_EmptyName_def toast_InvalidPhone_def toast_WeakPassword_def lit_def)

text \<open>The four ways out of the synchronous part of the handler.\<close>

lemma sync_EmptyName:
  "js_trim (fullName (formData s)) = [] \<Longrightarrow>
   handleSubmit_sync s = Inl (s\<lparr>isLoading := False, toasts := toasts s @ [toast_EmptyName]\<rparr>)"
  by (simp add: handleSubmit_sync_def Let_def js_not_def setIsLoading_def toast_def)

lemma sync_InvalidPhone:
  "js_trim (fullName (formData s)) \<noteq> [] \<Longrightarrow>
   js_trim (phoneNumber (formData s)) = [] \<or> length (phoneNumber (formData s)) < 19 \<Longrightarrow>
   handleSubmit_sync s = Inl (s\<lparr>isLoading := False, toasts := toasts s @ [toast_InvalidPhone]\<rparr>)"
  by (simp add: handleSubmit_sync_def Let_def js_not_def setIsLoading_def toast_def)

lemma sync_WeakPassword:
  "js_trim (fullName (formData s)) \<noteq> [] \<Longrightarrow>
   js_trim (phoneNumber (formData s)) \<noteq> [] \<Longrightarrow> 19 \<le> length (phoneNumber (formData s)) \<Longrightarrow>
   js_trim (password (formData s)) = [] \<or> length (password (formData s)) < 6 \<Longrightarrow>
   handleSubmit_sync s = Inl (s\<lparr>isLoading := False, toasts := toasts s @ [toast_WeakPassword]\<rparr>)"
  by (simp add: handleSubmit_sync_def Let_def js_not_def setIsLoading_def toast_def)

lemma sync_pass:
  "js_trim (fullName (formData s)) \<noteq> [] \<Longrightarrow>
   js_trim (phoneNumber (formData s)) \<noteq> [] \<Longrightarrow> 19 \<le> length (phoneNumber (formData s)) \<Longrightarrow>
   js_trim (password (formData s)) \<noteq> [] \<Longrightarrow> 6 \<le> length (password (formData s)) \<Longrightarrow>
   handleSubmit_sync s = Inr (s\<lparr>isLoading := True\<rparr>)"
  by (simp add: handleSubmit_sync_def Let_def js_not_def setIsLoading_def toast_def)

lemma rejection_unique:
  "s\<lparr>isLoading := False, toasts := toasts s @ [t]\<rparr> = s\<lparr>isLoading := False, toasts := toasts s @ [u]\<rparr>
   \<Longrightarrow> t = u"
  by (drule arg_cong [where f = toasts]) simp

lemma sync_cases:
  "handleSubmit_sync s = Inl (s\<lparr>isLoading := False, toasts := toasts s @ [toast_EmptyName]\<rparr>)
   \<or> handleSubmit_sync s = Inl (s\<lparr>isLoading := False, toasts := toasts s @ [toast_InvalidPhone]\<rparr>)
   \<or> handleSubmit_sync s = Inl (s\<lparr>isLoading := False, toasts := toasts s @ [toast_WeakPassword]\<rparr>)
   \<or> handleSubmit_sync s = Inr (s\<lparr>isLoading := True\<rparr>)"
  by (simp add: handleSubmit_sync_def Let_def js_not_def setIsLoading_def toast_def)

lemma resume_eq:
  "handleSubmit_resume Fulfilled s =
     s\<lparr>formData := \<lparr>fullName = [], phoneNumber = [], password = []\<rparr>, isLoading := False,
       toasts := toasts s @ [toast_Success]\<rparr>"
  "handleSubmit_resume Rejected s =
     s\<lparr>isLoading := False, toasts := toasts s @ [toast_SubmissionFailure]\<rparr>"
  by (simp_all add: handleSubmit_resume_def setIsLoading_def setFormData_def toast_def)


section \<open>The claims\<close>

lemmas string_eval = lit_def replace_D_def matches_D_def is_digit_def js_trim_def is_space_def
  js_not_def

lemmas state_eval = handleSubmit_sync_def handleSubmit_resume_def handleSubmit_with_def
  handleSubmit_def simulated_submission_def setIsLoading_def setFormData_def toast_def
  rejects_with_def Let_def



text \<open>
  C2. With the name Maria Silva, the phone number +55 (11) 99999-9999 and the password
  abcdef, the handler passes the three rules and suspends with \<open>isLoading\<close> true; the
  simulated submission is fulfilled, and the handler ends with the success notification,
  the three fields empty and \<open>isLoading\<close> false.
\<close>

theorem valid_submission:
  fixes sp l ts
  defines "s \<equiv> \<lparr>formData = \<lparr>fullName = lit ''Maria Silva'',
                phoneNumber = lit ''+55 (11) 99999-9999'', password = lit ''abcdef''\<rparr>,
              showPassword = sp, isLoading = l, toasts = ts\<rparr>"
  shows "handleSubmit_sync s = Inr (s\<lparr>isLoading := True\<rparr>)
    \<and> simulated_submission = Fulfilled
    \<and> handleSubmit s =
        \<lparr>formData = \<lparr>fullName = [], phoneNumber = [], password = []\<rparr>,
         showPassword = sp, isLoading = False, toasts = ts @ [toast_Success]\<rparr>"
  unfolding s_def by (simp add: state_eval string_eval)


theorem valid_submission_witness:
  "handleSubmit
     \<lparr>formData = \<lparr>fullName = lit ''Maria Silva'',
        phoneNumber = lit ''+55 (11) 99999-9999'', password = lit ''abcdef''\<rparr>,
      showPassword = False, isLoading = False, toasts = []\<rparr>
   = \<lparr>formData = \<lparr>fullName = [], phoneNumber = [], password = []\<rparr>,
      showPassword = False, isLoading = False, toasts = [toast_Success]\<rparr>"
  using valid_submission [of False False "[]"] by simp

text \<open>
  C3. \<open>isLoading\<close> is false when the handler returns, however the awaited promise
  settles and whichever rule rejects the form: after the whole handler, after its
  resumption from any state, and at each early return; it is true where the handler is
  suspended.
\<close>

theorem isLoading_false_on_exit:
  "\<not> isLoading (handleSubmit_with r s)
   \<and> \<not> isLoading (handleSubmit s)
   \<and> \<not> isLoading (handleSubmit_resume r s)
   \<and> (case handleSubmit_sync s of Inl s' \<Rightarrow> \<not> isLoading s' | Inr s' \<Rightarrow> isLoading s')"
proof -
  have sync: "case handleSubmit_sync s of Inl s' \<Rightarrow> \<not> isLoading s' | Inr s' \<Rightarrow> isLoading s'"
    by (simp add: handleSubmit_sync_def Let_def setIsLoading_def toast_def)
  have resume: "\<not> isLoading (handleSubmit_resume r' s')" for r' s'
    by (simp add: handleSubmit_resume_def setIsLoading_def)
  have whole: "\<not> isLoading (handleSubmit_with r' s)" for r'
    using sync resume by (simp add: handleSubmit_with_def split: sum.splits)
  from sync resume whole show ?thesis
    by (simp add: handleSubmit_def)
qed

theorem isLoading_false_on_exit_witness:
  "\<not> isLoading (handleSubmit_with Rejected
       \<lparr>formData = \<lparr>fullName = lit ''Maria Silva'',
          phoneNumber = lit ''+55 (11) 99999-9999'', password = lit ''abcdef''\<rparr>,
        showPassword = False, isLoading = False, toasts = []\<rparr>)
   \<and> \<not> isLoading (handleSubmit_with Fulfilled initial_state)"
  using isLoading_false_on_exit [of Rejected]  isLoading_false_on_exit [of Fulfilled initial_state]
  by simp




text \<open>
  C5. When the full name trims to the empty string, the handler returns at the first
  rule with the EmptyName notification, whatever the phone number and the password are
  and however the submission would have settled: nothing else is emitted, the fields are
  kept, and the submission step is not reached.
\<close>

theorem blank_name_rejected:
  assumes "js_trim (fullName (formData s)) = []"
  shows "rejects_with toast_EmptyName s
    \<and> handleSubmit_with r s = s\<lparr>isLoading := False, toasts := toasts s @ [toast_EmptyName]\<rparr>"
  using sync_EmptyName [OF assms] by (simp add: rejects_with_def handleSubmit_with_def)

theorem blank_name_rejected_witness:
  "js_trim (lit ''  '') = []
   \<and> rejects_with toast_EmptyName
        \<lparr>formData = \<lparr>fullName = lit ''  '', phoneNumber = lit ''+55 (11) 99999-9999'',
           password = lit ''abcdef''\<rparr>,
         showPassword = False, isLoading = False, toasts = []\<rparr>"
proof -
  have h: "js_trim (lit ''  '') = []"
    by (simp add: string_eval)
  from blank_name_rejected
    [of "\<lparr>formData = \<lparr>fullName = lit ''  '', phoneNumber = lit ''+55 (11) 99999-9999'',
           password = lit ''abcdef''\<rparr>,
         showPassword = False, isLoading = False, toasts = []\<rparr>"] h
  show ?thesis by simp
qed

text \<open>
  C6 fails where the name is blank: in the initial state the phone number is empty, and
  the handler returns at the first rule with the EmptyName notification.
\<close>

theorem short_phone_counterexample:
  "length (phoneNumber (formData initial_state)) < 19
   \<and> js_trim (phoneNumber (formData initial_state)) = []
   \<and> \<not> rejects_with toast_InvalidPhone initial_state
   \<and> rejects_with toast_EmptyName initial_state"
proof -
  have "handleSubmit_sync initial_state
        = Inl (initial_state\<lparr>isLoading := False,
                 toasts := toasts initial_state @ [toast_EmptyName]\<rparr>)"
    by (rule sync_EmptyName) (simp add: initial_state_def empty_form_def js_trim_def)
  then show ?thesis
    using toast_distinct(1)
    by (auto simp: rejects_with_def initial_state_def empty_form_def js_trim_def
        dest: rejection_unique)
qed

text \<open>
  C6, amended. When the full name does not trim to the empty string and the phone number
  trims to the empty string or has fewer than 19 code units, the handler returns at the
  second rule with the InvalidPhone notification, before the submission step.
\<close>

theorem short_phone_rejected:
  assumes "js_trim (fullName (formData s)) \<noteq> []"
    and "js_trim (phoneNumber (formData s)) = [] \<or> length (phoneNumber (formData s)) < 19"
  shows "rejects_with toast_InvalidPhone s
    \<and> handleSubmit_with r s = s\<lparr>isLoading := False, toasts := toasts s @ [toast_InvalidPhone]\<rparr>"
  using sync_InvalidPhone [OF assms] by (simp add: rejects_with_def handleSubmit_with_def)

theorem short_phone_rejected_witness:
  "js_trim (lit ''Maria Silva'') \<noteq> []
   \<and> length (lit ''+55 (11) 99999-999'') < 19
   \<and> rejects_with toast_InvalidPhone
        \<lparr>formData = \<lparr>fullName = lit ''Maria Silva'', phoneNumber = lit ''+55 (11) 99999-999'',
           password = lit ''abcdef''\<rparr>,
         showPassword = False, isLoading = False, toasts = []\<rparr>"
proof -
  have h1: "js_trim (lit ''Maria Silva'') \<noteq> []"
    by (simp add: string_eval)
  have h2: "length (lit ''+55 (11) 99999-999'') < 19"
    by (simp add: lit_def)
  from short_phone_rejected
    [of "\<lparr>formData = \<lparr>fullName = lit ''Maria Silva'', phoneNumber = lit ''+55 (11) 99999-999'',
           password = lit ''abcdef''\<rparr>,
         showPassword = False, isLoading = False, toasts = []\<rparr>"] h1 h2
  show ?thesis by simp
qed

text \<open>
  C7 fails where an earlier rule rejects: with a name and no phone number the password
  is empty, and the handler returns at the second rule with the InvalidPhone
  notification.
\<close>

theorem short_password_counterexample:
  "length (password (formData (handleInputChange FullName (lit ''Maria Silva'') initial_state))) < 6
   \<and> \<not> rejects_with toast_WeakPassword
         (handleInputChange FullName (lit ''Maria Silva'') initial_state)
   \<and> rejects_with toast_InvalidPhone
         (handleInputChange FullName (lit ''Maria Silva'') initial_state)"
proof -
  let ?s = "handleInputChange FullName (lit ''Maria Silva'') initial_state"
  have "handleSubmit_sync ?s
        = Inl (?s\<lparr>isLoading := False, toasts := toasts ?s @ [toast_InvalidPhone]\<rparr>)"
    by (rule sync_InvalidPhone)
      (simp_all add: initial_state_def empty_form_def setFormData_def string_eval)
  then show ?thesis
    using toast_distinct(3)
    by (auto simp: rejects_with_def initial_state_def empty_form_def setFormData_def
        dest: rejection_unique)
qed

text \<open>
  C7, amended. When the first two rules pass (the name does not trim to the empty
  string, the phone number does not either and has at least 19 code units) and the
  password trims to the empty string or has fewer than 6 code units, the handler returns
  at the third rule with the WeakPassword notification, before the submission step.
\<close>

theorem short_password_rejected:
  assumes "js_trim (fullName (formData s)) \<noteq> []"
    and "js_trim (phoneNumber (formData s)) \<noteq> []"
    and "19 \<le> length (phoneNumber (formData s))"
    and "js_trim (password (formData s)) = [] \<or> length (password (formData s)) < 6"
  shows "rejects_with toast_WeakPassword s
    \<and> handleSubmit_with r s = s\<lparr>isLoading := False, toasts := toasts s @ [toast_WeakPassword]\<rparr>"
  using sync_WeakPassword [OF assms] by (simp add: rejects_with_def handleSubmit_with_def)

theorem short_password_rejected_witness:
  "js_trim (lit ''Maria Silva'') \<noteq> []
   \<and> js_trim (lit ''+55 (11) 99999-9999'') \<noteq> []
   \<and> 19 \<le> length (lit ''+55 (11) 99999-9999'')
   \<and> length (lit ''abcde'') < 6
   \<and> rejects_with toast_WeakPassword
        \<lparr>formData = \<lparr>fullName = lit ''Maria Silva'', phoneNumber = lit ''+55 (11) 99999-9999'',
           password = lit ''abcde''\<rparr>,
         showPassword = False, isLoading = False, toasts = []\<rparr>"
proof -
  have h1: "js_trim (lit ''Maria Silva'') \<noteq> []"
    by (simp add: string_eval)
  have h2: "js_trim (lit ''+55 (11) 99999-9999'') \<noteq> []"
    by (simp add: string_eval)
  have h3: "19 \<le> length (lit ''+55 (11) 99999-9999'')"
    by (simp add: lit_def)
  have h4: "length (lit ''abcde'') < 6"
    by (simp add: lit_def)
  from short_password_rejected
    [of "\<lparr>formData = \<lparr>fullName = lit ''Maria Silva'', phoneNumber = lit ''+55 (11) 99999-9999'',
           password = lit ''abcde''\<rparr>,
         showPassword = False, isLoading = False, toasts = []\<rparr>"] h1 h2 h3 h4
  show ?thesis by simp
qed


text \<open>
  C8. When the three rules pass and the awaited promise is rejected, the handler emits
  the generic error notification and nothing else, sets \<open>isLoading\<close> to false, and
  leaves the three fields as they were; the same holds for the resumption alone, from
  the state in which the handler was suspended.
\<close>

theorem failure_keeps_fields:
  assumes "handleSubmit_sync s = Inr s'"
  shows "handleSubmit_with Rejected s
           = s\<lparr>isLoading := False, toasts := toasts s @ [toast_SubmissionFailure]\<rparr>
    \<and> formData (handleSubmit_with Rejected s) = formData s
    \<and> handleSubmit_resume Rejected s'
           = s'\<lparr>isLoading := False, toasts := toasts s' @ [toast_SubmissionFailure]\<rparr>"
proof -
  from assms sync_cases [of s] have "s' = s\<lparr>isLoading := True\<rparr>"
    by auto
  with assms show ?thesis
    by (simp add: handleSubmit_with_def resume_eq)
qed

theorem failure_keeps_fields_witness:
  "handleSubmit_with Rejected
     \<lparr>formData = \<lparr>fullName = lit ''Maria Silva'',
        phoneNumber = lit ''+55 (11) 99999-9999'', password = lit ''abcdef''\<rparr>,
      showPassword = True, isLoading = False, toasts = []\<rparr>
   = \<lparr>formData = \<lparr>fullName = lit ''Maria Silva'',
        phoneNumber = lit ''+55 (11) 99999-9999'', password = lit ''abcdef''\<rparr>,
      showPassword = True, isLoading = False, toasts = [toast_SubmissionFailure]\<rparr>"
proof -
  let ?s = "\<lparr>formData = \<lparr>fullName = lit ''Maria Silva'',
        phoneNumber = lit ''+55 (11) 99999-9999'', password = lit ''abcdef''\<rparr>,
      showPassword = True, isLoading = False, toasts = []\<rparr>"
  have h: "handleSubmit_sync ?s = Inr (?s\<lparr>isLoading := True\<rparr>)"
    by (rule sync_pass) (simp_all add: string_eval)
  from failure_keeps_fields [OF h] show ?thesis
    by simp
qed

text \<open>
  C9. In every reachable state the phone number is the empty string or an output of the
  formatter.
\<close>

theorem phone_formatted_or_empty:
  assumes "reachable s"
  shows "phoneNumber (formData s) = [] \<or> (\<exists>v. phoneNumber (formData s) = formatPhoneNumber v)"
  using assms
proof (induction rule: reachable.induct)
  case r_init
  show ?case by (simp add: initial_state_def empty_form_def)
next
  case (r_name s v)
  then show ?case by (simp add: setFormData_def)
next
  case (r_phone s v)
  show ?case by (auto simp: handlePhoneChange_def setFormData_def)
next
  case (r_password s v)
  then show ?case by (simp add: setFormData_def)
next
  case (r_toggle s)
  then show ?case by (simp add: setShowPassword_def)
next
  case (r_reject s s')
  with sync_cases [of s] show ?case by auto
next
  case (r_await s s')
  with sync_cases [of s] show ?case by auto
next
  case (r_resume s r)
  then show ?case by (cases r) (simp_all add: resume_eq)
qed

theorem phone_formatted_or_empty_witness:
  "reachable (handlePhoneChange (lit ''1'') initial_state)
   \<and> phoneNumber (formData (handlePhoneChange (lit ''1'') initial_state)) = lit ''+55 1''
   \<and> (\<exists>v. phoneNumber (formData (handlePhoneChange (lit ''1'') initial_state))
            = formatPhoneNumber v)"
proof -
  have h: "reachable (handlePhoneChange (lit ''1'') initial_state)"
    by (rule r_phone) (rule r_init)
  have v: "phoneNumber (formData (handlePhoneChange (lit ''1'') initial_state)) = lit ''+55 1''"
    by (simp add: handlePhoneChange_def setFormData_def format_digits lit_def is_digit_def)
  then have "phoneNumber (formData (handlePhoneChange (lit ''1'') initial_state)) \<noteq> []"
    by (simp add: lit_def)
  with phone_formatted_or_empty [OF h] h v show ?thesis
    by simp
qed

text \<open>
  C10. An output of the formatter has at most 19 code units, and exactly 19 when the
  input has at least 13 digits, a digit being a code unit from 0 to 9 and every other
  code unit of the input counting for nothing; so, once the name rule has passed, the
  handler rejects a phone number that the formatter produced with InvalidPhone exactly
  when the input had fewer than 13 digits.
\<close>

theorem format_length_and_phone_rule:
  "length (formatPhoneNumber v) \<le> 19
   \<and> (length (formatPhoneNumber v) = 19 \<longleftrightarrow> 13 \<le> length (filter is_digit v))
   \<and> (js_trim (fullName (formData s)) \<noteq> [] \<and> phoneNumber (formData s) = formatPhoneNumber v
        \<longrightarrow> (rejects_with toast_InvalidPhone s \<longleftrightarrow> length (filter is_digit v) < 13))"
proof -
  have le: "length (formatPhoneNumber v) \<le> 19"
    by (rule format_length_le)
  have eq: "length (formatPhoneNumber v) = 19 \<longleftrightarrow> 13 \<le> length (filter is_digit v)"
    using format_length_19 [of v] by (simp only: replace_D_filter)
  have rule: "rejects_with toast_InvalidPhone s \<longleftrightarrow> length (filter is_digit v) < 13"
    if name: "js_trim (fullName (formData s)) \<noteq> []"
      and phone: "phoneNumber (formData s) = formatPhoneNumber v"
  proof (cases "length (filter is_digit v) < 13")
    case True
    with eq le have "length (phoneNumber (formData s)) < 19"
      by (simp add: phone)
    with sync_InvalidPhone [OF name] True show ?thesis
      by (simp add: rejects_with_def)
  next
    case False
    with eq have len: "19 \<le> length (phoneNumber (formData s))"
      by (simp add: phone)
    have tr: "js_trim (phoneNumber (formData s)) \<noteq> []"
      by (simp add: phone js_trim_format)
    have "\<not> rejects_with toast_InvalidPhone s"
    proof (cases "js_trim (password (formData s)) = [] \<or> length (password (formData s)) < 6")
      case True
      from sync_WeakPassword [OF name tr len True] toast_distinct(3) show ?thesis
        by (auto simp: rejects_with_def dest: rejection_unique)
    next
      case False
      with sync_pass [OF name tr len] show ?thesis
        by (simp add: rejects_with_def)
    qed
    with False show ?thesis by simp
  qed
  from le eq rule show ?thesis by blast
qed

theorem format_length_and_phone_rule_witness:
  "length (filter is_digit (lit ''+55 (11) 98765-4321 ext'')) = 13
   \<and> formatPhoneNumber (lit ''+55 (11) 98765-4321 ext'') = lit ''+55 (11) 98765-4321''
   \<and> length (formatPhoneNumber (lit ''+55 (11) 98765-4321 ext'')) = 19
   \<and> \<not> rejects_with toast_InvalidPhone
        (handlePhoneChange (lit ''+55 (11) 98765-4321 ext'')
          (handleInputChange FullName (lit ''Maria Silva'') initial_state))
   \<and> length (lit ''abcdefghijklm'') = 13
   \<and> length (filter is_digit (lit ''abcdefghijklm'')) = 0
   \<and> formatPhoneNumber (lit ''abcdefghijklm'') = lit ''+55 ''
   \<and> length (formatPhoneNumber (lit ''abcdefghijklm'')) \<noteq> 19
   \<and> rejects_with toast_InvalidPhone
        (handlePhoneChange (lit ''abcdefghijklm'')
          (handleInputChange FullName (lit ''Maria Silva'') initial_state))
   \<and> length (filter is_digit (lit ''55-11-98765-432x'')) = 12
   \<and> formatPhoneNumber (lit ''55-11-98765-432x'') = lit ''+55 (11) 98765-432''
   \<and> rejects_with toast_InvalidPhone
        (handlePhoneChange (lit ''55-11-98765-432x'')
          (handleInputChange FullName (lit ''Maria Silva'') initial_state))"
proof -
  let ?s = "\<lambda>v. handlePhoneChange v (handleInputChange FullName (lit ''Maria Silva'') initial_state)"
  have name: "js_trim (fullName (formData (?s v))) \<noteq> []" for v
    by (simp add: handlePhoneChange_def setFormData_def initial_state_def string_eval)
  have phone: "phoneNumber (formData (?s v)) = formatPhoneNumber v" for v
    by (simp add: handlePhoneChange_def setFormData_def)
  have d13: "length (filter is_digit (lit ''+55 (11) 98765-4321 ext'')) = 13"
    by (simp add: lit_def is_digit_def)
  have d0: "length (filter is_digit (lit ''abcdefghijklm'')) = 0"
    by (simp add: lit_def is_digit_def)
  have d12: "length (filter is_digit (lit ''55-11-98765-432x'')) = 12"
    by (simp add: lit_def is_digit_def)
  have f13: "formatPhoneNumber (lit ''+55 (11) 98765-4321 ext'') = lit ''+55 (11) 98765-4321''"
    by (simp add: formatPhoneNumber_def string_eval js_slice_def rel_index_def)
  have f0: "formatPhoneNumber (lit ''abcdefghijklm'') = lit ''+55 ''"
    by (simp add: formatPhoneNumber_def string_eval js_slice_def rel_index_def)
  have f12: "formatPhoneNumber (lit ''55-11-98765-432x'') = lit ''+55 (11) 98765-432''"
    by (simp add: formatPhoneNumber_def string_eval js_slice_def rel_index_def)
  have l13: "length (lit ''abcdefghijklm'') = 13"
    by (simp add: lit_def)
  from format_length_and_phone_rule
      [of "lit ''+55 (11) 98765-4321 ext''" "?s (lit ''+55 (11) 98765-4321 ext'')"]
    format_length_and_phone_rule [of "lit ''abcdefghijklm''" "?s (lit ''abcdefghijklm'')"]
    format_length_and_phone_rule [of "lit ''55-11-98765-432x''" "?s (lit ''55-11-98765-432x'')"]
    name phone d13 d0 d12 f13 f0 f12 l13
  show ?thesis by simp
qed

end
